theory Spec2Isabelle
  imports Main
begin

section \<open>Request values\<close>

text \<open>
  The routes of \<^verbatim>\<open>routes/news.js\<close> and of the posts router read their inputs from
  \<^verbatim>\<open>req.params\<close> (always strings) and from \<^verbatim>\<open>req.body\<close>, which the multipart
  parser on the create and update routes fills with text fields: a field is a string, or
  \<^verbatim>\<open>undefined\<close> when the form does not carry it. A field is a \<open>string option\<close>.
  JavaScript's truthiness of such a value: \<^verbatim>\<open>undefined\<close> and the empty string are
  falsy, every other string is truthy.
\<close>

definition truthy :: "string option \<Rightarrow> bool" where
  "truthy v = (case v of None \<Rightarrow> False | Some s \<Rightarrow> s \<noteq> [])"

text \<open>The literal \<^verbatim>\<open>['class', 'module', 'assignment']\<close> of every route.\<close>

definition entity_kinds :: "string list" where
  "entity_kinds = [''class'', ''module'', ''assignment'']"

text \<open>
  \<^verbatim>\<open>linkedType && linkedId\<close> (news) and \<^verbatim>\<open>entityType && entityId\<close> (posts): the
  target of a create or update request, present only when both fields are truthy.
\<close>

definition link_target :: "string option \<Rightarrow> string option \<Rightarrow> (string \<times> string) option" where
  "link_target linkedType linkedId =
     (case linkedType of
        None \<Rightarrow> None
      | Some t \<Rightarrow>
          (case linkedId of
             None \<Rightarrow> None
           | Some i \<Rightarrow> if t \<noteq> [] \<and> i \<noteq> [] then Some (t, i) else None))"

text \<open>
  \<^verbatim>\<open>linkedType && !['class', 'module', 'assignment'].includes(linkedType)\<close>: the
  validation of the kind on create and update.
\<close>

definition invalid_kind :: "string option \<Rightarrow> bool" where
  "invalid_kind linkedType =
     (case linkedType of None \<Rightarrow> False | Some t \<Rightarrow> t \<noteq> [] \<and> t \<notin> set entity_kinds)"

text \<open>
  \<^verbatim>\<open>entityType.charAt(0).toUpperCase() + entityType.slice(1)\<close>, on ASCII letters.
\<close>

definition to_upper :: "char \<Rightarrow> char" where
  "to_upper c =
     (let n = (of_char c :: nat) in if 97 \<le> n \<and> n \<le> 122 then char_of (n - 32) else c)"

definition capitalize :: "string \<Rightarrow> string" where
  "capitalize s = (case s of [] \<Rightarrow> [] | c # r \<Rightarrow> to_upper c # r)"

section \<open>The store\<close>

text \<open>
  Every id column of \<^verbatim>\<open>db.js\<close> is an \<^verbatim>\<open>INTEGER\<close> (or \<^verbatim>\<open>SERIAL\<close>), and every id of
  a request reaches the store as the text of a query parameter. The store reads the text
  as a 32-bit integer (optional blanks, an optional sign, decimal digits, optional
  blanks) and rejects the query otherwise: the \<^verbatim>\<open>await\<close> throws and the route answers
  500 from its \<^verbatim>\<open>catch\<close>.
\<close>

definition is_space :: "char \<Rightarrow> bool" where
  "is_space c = ((of_char c :: nat) = 32 \<or> (9 \<le> (of_char c :: nat) \<and> (of_char c :: nat) \<le> 13))"

definition is_digit :: "char \<Rightarrow> bool" where
  "is_digit c = (48 \<le> (of_char c :: nat) \<and> (of_char c :: nat) \<le> 57)"

fun digits_value :: "nat \<Rightarrow> string \<Rightarrow> nat" where
  "digits_value acc [] = acc"
| "digits_value acc (c # cs) = digits_value (10 * acc + (of_char c - 48)) cs"

definition pg_int4 :: "string \<Rightarrow> int option" where
  "pg_int4 s =
     (let t = dropWhile is_space s;
          neg = (case t of [] \<Rightarrow> False | c # _ \<Rightarrow> c = CHR ''-'');
          u = (case t of [] \<Rightarrow> [] | c # r \<Rightarrow> if c = CHR ''-'' \<or> c = CHR ''+'' then r else t);
          ds = takeWhile is_digit u;
          rest = dropWhile is_digit u;
          v = (if neg then - int (digits_value 0 ds) else int (digits_value 0 ds))
      in if ds = [] \<or> \<not> list_all is_space rest then None
         else if - 2147483648 \<le> v \<and> v \<le> 2147483647 then Some v
         else None)"

datatype sql_error =
    StringTooLong
  | CheckViolation
  | UniqueViolation
  | ForeignKeyViolation
  | ConnectionFailure

text \<open>
  The tables of \<^verbatim>\<open>db.js\<close> that the news and posts routes touch. A table is the list
  of its rows: the uniqueness of a key is a constraint that the statements below enforce,
  as the schema does, not a property of the type.

  \<^verbatim>\<open>news\<close>: \<^verbatim>\<open>id SERIAL PRIMARY KEY, title VARCHAR(100) NOT NULL, content TEXT NOT
  NULL, image_url VARCHAR(255), created_by INTEGER REFERENCES users(id), created_at,
  updated_at\<close>.
\<close>

record news_row =
  n_id :: int
  n_title :: string
  n_content :: string
  n_image_url :: "string option"
  n_created_by :: int
  n_created_at :: nat
  n_updated_at :: nat

text \<open>
  \<^verbatim>\<open>posts\<close>: \<^verbatim>\<open>id SERIAL PRIMARY KEY, user_id INTEGER REFERENCES users(id) ON DELETE
  CASCADE, content TEXT NOT NULL, image_url VARCHAR(255), created_at, updated_at\<close>.
\<close>

record post_row =
  p_id :: int
  p_user_id :: int
  p_content :: string
  p_image_url :: "string option"
  p_created_at :: nat
  p_updated_at :: nat

text \<open>
  \<^verbatim>\<open>news_entities\<close> and \<^verbatim>\<open>posts_entities\<close> have the same shape: the owner's id
  (\<^verbatim>\<open>news_id\<close>, \<^verbatim>\<open>posts_id\<close>: the primary key, referencing the owner
  \<^verbatim>\<open>ON DELETE CASCADE\<close>), \<^verbatim>\<open>entity_type VARCHAR(20) NOT NULL CHECK (entity_type IN
  ('class', 'module', 'assignment'))\<close> and \<^verbatim>\<open>entity_id INTEGER NOT NULL\<close>.
\<close>

record entity_link =
  owner_id :: int
  entity_type :: string
  entity_id :: int

text \<open>
  Of \<^verbatim>\<open>users\<close>, \<^verbatim>\<open>classes\<close>, \<^verbatim>\<open>modules\<close> and \<^verbatim>\<open>assignments\<close> the routes
  below only ask whether an id is there, so each is the list of its ids. The two
  sequences behind the \<^verbatim>\<open>SERIAL\<close> columns are part of the store: a sequence that has
  advanced stays advanced when the transaction is rolled back.
\<close>

record db =
  users :: "int list"
  classes :: "int list"
  modules :: "int list"
  assignments :: "int list"
  news :: "news_row list"
  news_seq :: int
  news_entities :: "entity_link list"
  posts :: "post_row list"
  posts_seq :: int
  posts_entities :: "entity_link list"

text \<open>The tables without the sequences: what a rollback restores.\<close>

definition tables :: "db \<Rightarrow> db" where
  "tables d = d\<lparr>news_seq := 0, posts_seq := 0\<rparr>"

definition rollback :: "db \<Rightarrow> db \<Rightarrow> db" where
  "rollback snapshot cur = snapshot\<lparr>news_seq := news_seq cur, posts_seq := posts_seq cur\<rparr>"

subsection \<open>Statements on a link table\<close>

text \<open>\<^verbatim>\<open>SELECT * FROM news_entities WHERE news_id = $1\<close>\<close>

definition select_link :: "entity_link list \<Rightarrow> int \<Rightarrow> entity_link list" where
  "select_link t oid = filter (\<lambda>l. owner_id l = oid) t"

text \<open>
  \<^verbatim>\<open>INSERT INTO news_entities (news_id, entity_type, entity_id) VALUES ($1, $2, $3)\<close>,
  with the constraints of the schema; \<open>owners\<close> are the ids of the owner table.
\<close>

definition insert_link :: "int list \<Rightarrow> entity_link list \<Rightarrow> entity_link \<Rightarrow> sql_error + entity_link list" where
  "insert_link owners t l =
     (if 20 < length (entity_type l) then Inl StringTooLong
      else if entity_type l \<notin> set entity_kinds then Inl CheckViolation
      else if owner_id l \<in> set (map owner_id t) then Inl UniqueViolation
      else if owner_id l \<notin> set owners then Inl ForeignKeyViolation
      else Inr (t @ [l]))"

text \<open>
  \<^verbatim>\<open>UPDATE news_entities SET entity_type = $1, entity_id = $2 WHERE news_id = $3\<close>
\<close>

definition update_link :: "entity_link list \<Rightarrow> int \<Rightarrow> string \<Rightarrow> int \<Rightarrow> sql_error + entity_link list" where
  "update_link t oid k e =
     (if 20 < length k then Inl StringTooLong
      else if select_link t oid \<noteq> [] \<and> k \<notin> set entity_kinds then Inl CheckViolation
      else Inr (map (\<lambda>l. if owner_id l = oid then l\<lparr>entity_type := k, entity_id := e\<rparr> else l) t))"

text \<open>\<^verbatim>\<open>DELETE FROM news_entities WHERE news_id = $1\<close>\<close>

definition delete_link :: "entity_link list \<Rightarrow> int \<Rightarrow> entity_link list" where
  "delete_link t oid = filter (\<lambda>l. owner_id l \<noteq> oid) t"

text \<open>
  The check-then-write of the link routes and of the update transaction:
  \<^verbatim>\<open>if (linkCheck.rows.length > 0) UPDATE ... else INSERT ...\<close>
\<close>

definition write_link :: "int list \<Rightarrow> entity_link list \<Rightarrow> int \<Rightarrow> string \<Rightarrow> int \<Rightarrow> sql_error + entity_link list" where
  "write_link owners t oid k e =
     (if 0 < length (select_link t oid) then update_link t oid k e
      else insert_link owners t \<lparr>owner_id = oid, entity_type = k, entity_id = e\<rparr>)"

text \<open>
  The \<^verbatim>\<open>switch (entityType)\<close> of every route that verifies a target:
  \<^verbatim>\<open>SELECT id FROM classes WHERE id = $1\<close> and its two siblings, with
  \<^verbatim>\<open>entityExists\<close> staying \<^verbatim>\<open>false\<close> when no case matches.
\<close>

definition entity_exists :: "db \<Rightarrow> string \<Rightarrow> int \<Rightarrow> bool" where
  "entity_exists d k e =
     (if k = ''class'' then 0 < length (filter (\<lambda>i. i = e) (classes d))
      else if k = ''module'' then 0 < length (filter (\<lambda>i. i = e) (modules d))
      else if k = ''assignment'' then 0 < length (filter (\<lambda>i. i = e) (assignments d))
      else False)"

subsection \<open>Statements on the owner tables\<close>

text \<open>\<^verbatim>\<open>SELECT * FROM news WHERE id = $1\<close>\<close>

definition select_news :: "db \<Rightarrow> int \<Rightarrow> news_row list" where
  "select_news d nid = filter (\<lambda>r. n_id r = nid) (news d)"

text \<open>
  \<^verbatim>\<open>INSERT INTO news (title, content, image_url, created_by) VALUES ($1, $2, $3, $4)
  RETURNING *\<close>. The id is the next value of the sequence, which advances whether or
  not the row is accepted; \<open>now\<close> is \<^verbatim>\<open>CURRENT_TIMESTAMP\<close>.
\<close>

definition sql_insert_news ::
  "string \<Rightarrow> string \<Rightarrow> string option \<Rightarrow> int \<Rightarrow> nat \<Rightarrow> db \<Rightarrow> (sql_error + news_row) \<times> db" where
  "sql_insert_news title content img creator now d =
     (let d1 = d\<lparr>news_seq := news_seq d + 1\<rparr>;
          r = \<lparr>n_id = news_seq d, n_title = title, n_content = content, n_image_url = img,
               n_created_by = creator, n_created_at = now, n_updated_at = now\<rparr>
      in if 100 < length title \<or> (case img of None \<Rightarrow> False | Some url \<Rightarrow> 255 < length url)
         then (Inl StringTooLong, d1)
         else if n_id r \<in> set (map n_id (news d)) then (Inl UniqueViolation, d1)
         else if creator \<notin> set (users d) then (Inl ForeignKeyViolation, d1)
         else (Inr r, d1\<lparr>news := news d @ [r]\<rparr>))"

text \<open>
  \<^verbatim>\<open>UPDATE news SET title = $1, content = $2, image_url = $3, updated_at =
  CURRENT_TIMESTAMP WHERE id = $4 RETURNING *\<close>
\<close>

definition sql_update_news ::
  "int \<Rightarrow> string \<Rightarrow> string \<Rightarrow> string option \<Rightarrow> nat \<Rightarrow> db \<Rightarrow> sql_error + db" where
  "sql_update_news nid title content img now d =
     (if 100 < length title \<or> (case img of None \<Rightarrow> False | Some url \<Rightarrow> 255 < length url)
      then Inl StringTooLong
      else Inr (d\<lparr>news := map (\<lambda>r. if n_id r = nid
                                    then r\<lparr>n_title := title, n_content := content,
                                           n_image_url := img, n_updated_at := now\<rparr>
                                    else r) (news d)\<rparr>))"

text \<open>
  \<^verbatim>\<open>DELETE FROM news WHERE id = $1\<close>. The link table references the owner
  \<^verbatim>\<open>ON DELETE CASCADE\<close>: the rows that reference a deleted owner go with it.
\<close>

definition sql_delete_news :: "int \<Rightarrow> db \<Rightarrow> db" where
  "sql_delete_news nid d =
     d\<lparr>news := filter (\<lambda>r. n_id r \<noteq> nid) (news d),
       news_entities := (if select_news d nid \<noteq> [] then delete_link (news_entities d) nid
                         else news_entities d)\<rparr>"

text \<open>\<^verbatim>\<open>SELECT * FROM posts WHERE id = $1\<close>\<close>

definition select_post :: "db \<Rightarrow> int \<Rightarrow> post_row list" where
  "select_post d pid = filter (\<lambda>r. p_id r = pid) (posts d)"

text \<open>
  \<^verbatim>\<open>INSERT INTO posts (user_id, content, image_url) VALUES ($1, $2, $3) RETURNING *\<close>
\<close>

definition sql_insert_post ::
  "int \<Rightarrow> string \<Rightarrow> string option \<Rightarrow> nat \<Rightarrow> db \<Rightarrow> (sql_error + post_row) \<times> db" where
  "sql_insert_post creator content img now d =
     (let d1 = d\<lparr>posts_seq := posts_seq d + 1\<rparr>;
          r = \<lparr>p_id = posts_seq d, p_user_id = creator, p_content = content,
               p_image_url = img, p_created_at = now, p_updated_at = now\<rparr>
      in if (case img of None \<Rightarrow> False | Some url \<Rightarrow> 255 < length url)
         then (Inl StringTooLong, d1)
         else if p_id r \<in> set (map p_id (posts d)) then (Inl UniqueViolation, d1)
         else if creator \<notin> set (users d) then (Inl ForeignKeyViolation, d1)
         else (Inr r, d1\<lparr>posts := posts d @ [r]\<rparr>))"

text \<open>
  \<^verbatim>\<open>UPDATE posts SET content = $1, image_url = $2, updated_at = CURRENT_TIMESTAMP WHERE
  id = $3 RETURNING *\<close>
\<close>

definition sql_update_post ::
  "int \<Rightarrow> string \<Rightarrow> string option \<Rightarrow> nat \<Rightarrow> db \<Rightarrow> sql_error + db" where
  "sql_update_post pid content img now d =
     (if (case img of None \<Rightarrow> False | Some url \<Rightarrow> 255 < length url)
      then Inl StringTooLong
      else Inr (d\<lparr>posts := map (\<lambda>r. if p_id r = pid
                                     then r\<lparr>p_content := content, p_image_url := img,
                                            p_updated_at := now\<rparr>
                                     else r) (posts d)\<rparr>))"

text \<open>
  \<^verbatim>\<open>DELETE FROM posts WHERE id = $1\<close>, cascading to \<^verbatim>\<open>posts_entities\<close> (the
  comments of the post, which cascade too, are not part of this store).
\<close>

definition sql_delete_post :: "int \<Rightarrow> db \<Rightarrow> db" where
  "sql_delete_post pid d =
     d\<lparr>posts := filter (\<lambda>r. p_id r \<noteq> pid) (posts d),
       posts_entities := (if select_post d pid \<noteq> [] then delete_link (posts_entities d) pid
                          else posts_entities d)\<rparr>"

section \<open>Requests and responses\<close>

text \<open>\<^verbatim>\<open>req.user\<close>, as the authentication middleware leaves it.\<close>

record user =
  uid :: int
  role :: string

text \<open>
  \<^verbatim>\<open>req.file\<close> with what \<^verbatim>\<open>uploadFile\<close> makes of it: the URL of the stored image,
  or a rejection.
\<close>

datatype upload = Uploaded string | UploadError

text \<open>
  A response is its status and its JSON body. Of the row a route answers with, the body
  keeps the owner's columns and \<^verbatim>\<open>linked_type\<close>, \<^verbatim>\<open>linked_id\<close>; the author's name
  and the titles joined onto it are left out. \<open>NoBody\<close> is \<^verbatim>\<open>res.json(undefined)\<close>.
\<close>

datatype body =
    Message string
  | NewsJson news_row "(string \<times> int) option"
  | PostJson post_row "(string \<times> int) option"
  | NoBody

datatype response = Response (status: nat) (payload: body)

definition server_error :: response where
  "server_error = Response 500 (Message ''Server error'')"

text \<open>
  The store can reject any statement (a lost connection). For the two routes that open
  a transaction, \<open>tx_fault\<close> names the awaited call of the \<^verbatim>\<open>try\<close> block that
  rejects: \<^verbatim>\<open>BEGIN\<close>, the write of the owner row, the read of the link row, the write
  of the link row, \<^verbatim>\<open>COMMIT\<close>, or a query that builds the response after
  \<^verbatim>\<open>COMMIT\<close>. A rejected \<^verbatim>\<open>COMMIT\<close> commits nothing.
\<close>

datatype tx_fault = NoFault | AtBegin | AtOwnerWrite | AtLinkRead | AtLinkWrite | AtCommit | AfterCommit

text \<open>
  The verification of a target, \<^verbatim>\<open>if (linkedType && linkedId) { switch ... if
  (!entityExists) return 404 }\<close>: the query throws on an id that is no integer.
\<close>

datatype target_check = TargetThrows | TargetMissing | TargetOk "(string \<times> int) option"

definition check_target :: "db \<Rightarrow> (string \<times> string) option \<Rightarrow> target_check" where
  "check_target d tgt =
     (case tgt of
        None \<Rightarrow> TargetOk None
      | Some (k, i) \<Rightarrow>
          if k \<in> set entity_kinds then
            (case pg_int4 i of
               None \<Rightarrow> TargetThrows
             | Some e \<Rightarrow> if entity_exists d k e then TargetOk (Some (k, e)) else TargetMissing)
          else TargetMissing)"

text \<open>The string of a field that was found truthy.\<close>

definition text_of :: "string option \<Rightarrow> string" where
  "text_of v = (case v of None \<Rightarrow> [] | Some s \<Rightarrow> s)"

text \<open>
  \<^verbatim>\<open>res.status(404).json({ message: `${linkedType.charAt(0).toUpperCase() +
  linkedType.slice(1)} not found` })\<close>
\<close>

definition kind_not_found :: "string option \<Rightarrow> response" where
  "kind_not_found k = Response 404 (Message (capitalize (text_of k) @ '' not found''))"

text \<open>
  \<^verbatim>\<open>let imageUrl = ...; if (file) { imageUrl = (await uploadFile(file, ...)).url }\<close>,
  where \<open>old\<close> is \<^verbatim>\<open>null\<close> on create and the stored URL on update.
\<close>

definition image_of :: "upload option \<Rightarrow> string option \<Rightarrow> string option" where
  "image_of file old = (case file of Some (Uploaded url) \<Rightarrow> Some url | _ \<Rightarrow> old)"

section \<open>The news routes\<close>

text \<open>
  Each route below is the callback of its \<^verbatim>\<open>router\<close> registration: it runs once the
  middleware in front of it (\<^verbatim>\<open>authenticate\<close>, on the news routes also
  \<^verbatim>\<open>authorize(['aslab'])\<close>, and the multipart parser) has let the request through, and
  it receives \<^verbatim>\<open>req.user\<close> from there. It returns the response and the store it
  leaves. An \<^verbatim>\<open>await\<close> that throws is caught by the route's \<^verbatim>\<open>catch\<close>, which answers
  500.

  The guard of every news route that changes a news item:
  \<^verbatim>\<open>newsCheck.rows[0].created_by !== req.user.id && req.user.role !== 'aslab'\<close>
\<close>

definition news_forbidden :: "user \<Rightarrow> news_row \<Rightarrow> bool" where
  "news_forbidden u r = (n_created_by r \<noteq> uid u \<and> role u \<noteq> ''aslab'')"

text \<open>
  The row the read routes and the update route answer with: \<^verbatim>\<open>news n JOIN users u ON
  n.created_by = u.id LEFT JOIN news_entities e ON n.id = e.news_id ... WHERE n.id = $1\<close>,
  then \<^verbatim>\<open>rows[0]\<close>.
\<close>

definition news_json :: "db \<Rightarrow> int \<Rightarrow> body" where
  "news_json d nid =
     (case filter (\<lambda>r. n_created_by r \<in> set (users d)) (select_news d nid) of
        [] \<Rightarrow> NoBody
      | r # _ \<Rightarrow>
          NewsJson r (case select_link (news_entities d) nid of
                        [] \<Rightarrow> None
                      | l # _ \<Rightarrow> Some (entity_type l, entity_id l)))"

text \<open>\<^verbatim>\<open>router.get('/:id', ...)\<close>\<close>

definition get_news_by_id :: "string \<Rightarrow> db \<Rightarrow> response" where
  "get_news_by_id ident d =
     (case pg_int4 ident of
        None \<Rightarrow> server_error
      | Some nid \<Rightarrow>
          (case news_json d nid of
             NoBody \<Rightarrow> Response 404 (Message ''News not found'')
           | b \<Rightarrow> Response 200 b))"

text \<open>\<^verbatim>\<open>router.post('/:id/link/:entityType/:entityId', ...)\<close>\<close>

definition link_news :: "user \<Rightarrow> string \<Rightarrow> string \<Rightarrow> string \<Rightarrow> db \<Rightarrow> response \<times> db" where
  "link_news u ident entityType entityId d =
     (case pg_int4 ident of
        None \<Rightarrow> (server_error, d)
      | Some nid \<Rightarrow>
          (case select_news d nid of
             [] \<Rightarrow> (Response 404 (Message ''News not found''), d)
           | r # _ \<Rightarrow>
               if news_forbidden u r
               then (Response 403 (Message ''Not authorized to update this news''), d)
               else if entityType \<notin> set entity_kinds
               then (Response 400 (Message ''Invalid entity type''), d)
               else
                 (case check_target d (Some (entityType, entityId)) of
                    TargetThrows \<Rightarrow> (server_error, d)
                  | TargetMissing \<Rightarrow> (kind_not_found (Some entityType), d)
                  | TargetOk None \<Rightarrow> (kind_not_found (Some entityType), d)
                  | TargetOk (Some (k, e)) \<Rightarrow>
                      (case write_link (map n_id (news d)) (news_entities d) nid k e of
                         Inl err \<Rightarrow> (server_error, d)
                       | Inr t \<Rightarrow>
                           (Response 200 (Message ''Entity linked successfully''),
                            d\<lparr>news_entities := t\<rparr>)))))"

text \<open>\<^verbatim>\<open>router.delete('/:id/unlink', ...)\<close>\<close>

definition unlink_news :: "user \<Rightarrow> string \<Rightarrow> db \<Rightarrow> response \<times> db" where
  "unlink_news u ident d =
     (case pg_int4 ident of
        None \<Rightarrow> (server_error, d)
      | Some nid \<Rightarrow>
          (case select_news d nid of
             [] \<Rightarrow> (Response 404 (Message ''News not found''), d)
           | r # _ \<Rightarrow>
               if news_forbidden u r
               then (Response 403 (Message ''Not authorized to update this news''), d)
               else (Response 200 (Message ''Entity link removed successfully''),
                     d\<lparr>news_entities := delete_link (news_entities d) nid\<rparr>)))"

text \<open>
  The transaction of \<^verbatim>\<open>router.post('/', ...)\<close>: \<^verbatim>\<open>BEGIN\<close>, the insert of the news
  item, the insert of the link when a target was given, \<^verbatim>\<open>COMMIT\<close>, the queries for
  the response; \<^verbatim>\<open>ROLLBACK\<close> in the \<^verbatim>\<open>catch\<close>.
\<close>

definition create_news_tx ::
  "tx_fault \<Rightarrow> user \<Rightarrow> string \<Rightarrow> string \<Rightarrow> string option \<Rightarrow> (string \<times> int) option \<Rightarrow> nat \<Rightarrow> db
     \<Rightarrow> response \<times> db" where
  "create_news_tx fault u title content img tgt now d =
     (if fault = AtBegin \<or> fault = AtOwnerWrite then (server_error, d)
      else
        (case sql_insert_news title content img (uid u) now d of
           (Inl err, d1) \<Rightarrow> (server_error, rollback d d1)
         | (Inr r, d1) \<Rightarrow>
             (case (case tgt of
                      None \<Rightarrow> Inr (news_entities d1)
                    | Some (k, e) \<Rightarrow>
                        if fault = AtLinkWrite then Inl ConnectionFailure
                        else insert_link (map n_id (news d1)) (news_entities d1)
                               \<lparr>owner_id = n_id r, entity_type = k, entity_id = e\<rparr>) of
                Inl err \<Rightarrow> (server_error, rollback d d1)
              | Inr t \<Rightarrow>
                  if fault = AtCommit then (server_error, rollback d d1)
                  else if fault = AfterCommit then (server_error, d1\<lparr>news_entities := t\<rparr>)
                  else (Response 201 (NewsJson r tgt), d1\<lparr>news_entities := t\<rparr>))))"

text \<open>\<^verbatim>\<open>router.post('/', ...)\<close>\<close>

definition create_news ::
  "tx_fault \<Rightarrow> user \<Rightarrow> string option \<Rightarrow> string option \<Rightarrow> string option \<Rightarrow> string option
     \<Rightarrow> upload option \<Rightarrow> nat \<Rightarrow> db \<Rightarrow> response \<times> db" where
  "create_news fault u title content linkedType linkedId file now d =
     (if \<not> truthy title \<or> \<not> truthy content
      then (Response 400 (Message ''Title and content are required''), d)
      else if invalid_kind linkedType
      then (Response 400 (Message ''Invalid linked entity type''), d)
      else
        (case check_target d (link_target linkedType linkedId) of
           TargetThrows \<Rightarrow> (server_error, d)
         | TargetMissing \<Rightarrow> (kind_not_found linkedType, d)
         | TargetOk tgt \<Rightarrow>
             if file = Some UploadError then (server_error, d)
             else create_news_tx fault u (text_of title) (text_of content)
                    (image_of file None) tgt now d))"

text \<open>
  The transaction of \<^verbatim>\<open>router.put('/:id', ...)\<close>: the update of the news item, then
  the link row written (updated when there is one, inserted otherwise) when a target was
  given and deleted otherwise; after \<^verbatim>\<open>COMMIT\<close>, the query for the complete row.
\<close>

definition update_news_tx ::
  "tx_fault \<Rightarrow> int \<Rightarrow> string \<Rightarrow> string \<Rightarrow> string option \<Rightarrow> (string \<times> int) option \<Rightarrow> nat \<Rightarrow> db
     \<Rightarrow> response \<times> db" where
  "update_news_tx fault nid title content img tgt now d =
     (if fault = AtBegin \<or> fault = AtOwnerWrite then (server_error, d)
      else
        (case sql_update_news nid title content img now d of
           Inl err \<Rightarrow> (server_error, rollback d d)
         | Inr d1 \<Rightarrow>
             (case (case tgt of
                      Some (k, e) \<Rightarrow>
                        if fault = AtLinkRead \<or> fault = AtLinkWrite then Inl ConnectionFailure
                        else write_link (map n_id (news d1)) (news_entities d1) nid k e
                    | None \<Rightarrow>
                        if fault = AtLinkWrite then Inl ConnectionFailure
                        else Inr (delete_link (news_entities d1) nid)) of
                Inl err \<Rightarrow> (server_error, rollback d d1)
              | Inr t \<Rightarrow>
                  if fault = AtCommit then (server_error, rollback d d1)
                  else if fault = AfterCommit then (server_error, d1\<lparr>news_entities := t\<rparr>)
                  else (Response 200 (news_json (d1\<lparr>news_entities := t\<rparr>) nid),
                        d1\<lparr>news_entities := t\<rparr>))))"

text \<open>\<^verbatim>\<open>router.put('/:id', ...)\<close>\<close>

definition update_news ::
  "tx_fault \<Rightarrow> user \<Rightarrow> string \<Rightarrow> string option \<Rightarrow> string option \<Rightarrow> string option \<Rightarrow> string option
     \<Rightarrow> upload option \<Rightarrow> nat \<Rightarrow> db \<Rightarrow> response \<times> db" where
  "update_news fault u ident title content linkedType linkedId file now d =
     (if \<not> truthy title \<or> \<not> truthy content
      then (Response 400 (Message ''Title and content are required''), d)
      else if invalid_kind linkedType
      then (Response 400 (Message ''Invalid linked entity type''), d)
      else
        (case pg_int4 ident of
           None \<Rightarrow> (server_error, d)
         | Some nid \<Rightarrow>
             (case select_news d nid of
                [] \<Rightarrow> (Response 404 (Message ''News not found''), d)
              | r # _ \<Rightarrow>
                  if news_forbidden u r
                  then (Response 403 (Message ''Not authorized to update this news''), d)
                  else
                    (case check_target d (link_target linkedType linkedId) of
                       TargetThrows \<Rightarrow> (server_error, d)
                     | TargetMissing \<Rightarrow> (kind_not_found linkedType, d)
                     | TargetOk tgt \<Rightarrow>
                         if file = Some UploadError then (server_error, d)
                         else update_news_tx fault nid (text_of title) (text_of content)
                                (image_of file (n_image_url r)) tgt now d))))"

text \<open>\<^verbatim>\<open>router.delete('/:id', ...)\<close>\<close>

definition delete_news :: "user \<Rightarrow> string \<Rightarrow> db \<Rightarrow> response \<times> db" where
  "delete_news u ident d =
     (case pg_int4 ident of
        None \<Rightarrow> (server_error, d)
      | Some nid \<Rightarrow>
          (case select_news d nid of
             [] \<Rightarrow> (Response 404 (Message ''News not found''), d)
           | r # _ \<Rightarrow>
               if news_forbidden u r
               then (Response 403 (Message ''Not authorized to delete this news''), d)
               else (Response 200 (Message ''News deleted successfully''),
                     sql_delete_news nid d)))"

section \<open>The posts routes\<close>

text \<open>
  The guard of every posts route that changes a post:
  \<^verbatim>\<open>postCheck.rows[0].user_id !== req.user.id\<close>
\<close>

definition post_forbidden :: "user \<Rightarrow> post_row \<Rightarrow> bool" where
  "post_forbidden u r = (p_user_id r \<noteq> uid u)"

definition post_json :: "db \<Rightarrow> int \<Rightarrow> body" where
  "post_json d pid =
     (case filter (\<lambda>r. p_user_id r \<in> set (users d)) (select_post d pid) of
        [] \<Rightarrow> NoBody
      | r # _ \<Rightarrow>
          PostJson r (case select_link (posts_entities d) pid of
                        [] \<Rightarrow> None
                      | l # _ \<Rightarrow> Some (entity_type l, entity_id l)))"

text \<open>\<^verbatim>\<open>router.post('/posts/:id/link/:entityType/:entityId', ...)\<close>\<close>

definition link_post :: "user \<Rightarrow> string \<Rightarrow> string \<Rightarrow> string \<Rightarrow> db \<Rightarrow> response \<times> db" where
  "link_post u ident entityType entityId d =
     (case pg_int4 ident of
        None \<Rightarrow> (server_error, d)
      | Some pid \<Rightarrow>
          (case select_post d pid of
             [] \<Rightarrow> (Response 404 (Message ''Post not found''), d)
           | r # _ \<Rightarrow>
               if post_forbidden u r
               then (Response 403 (Message ''Not authorized to update this post''), d)
               else if entityType \<notin> set entity_kinds
               then (Response 400 (Message ''Invalid entity type''), d)
               else
                 (case check_target d (Some (entityType, entityId)) of
                    TargetThrows \<Rightarrow> (server_error, d)
                  | TargetMissing \<Rightarrow> (kind_not_found (Some entityType), d)
                  | TargetOk None \<Rightarrow> (kind_not_found (Some entityType), d)
                  | TargetOk (Some (k, e)) \<Rightarrow>
                      (case write_link (map p_id (posts d)) (posts_entities d) pid k e of
                         Inl err \<Rightarrow> (server_error, d)
                       | Inr t \<Rightarrow>
                           (Response 200 (Message ''Entity linked successfully''),
                            d\<lparr>posts_entities := t\<rparr>)))))"

text \<open>\<^verbatim>\<open>router.delete('/posts/:id/unlink', ...)\<close>\<close>

definition unlink_post :: "user \<Rightarrow> string \<Rightarrow> db \<Rightarrow> response \<times> db" where
  "unlink_post u ident d =
     (case pg_int4 ident of
        None \<Rightarrow> (server_error, d)
      | Some pid \<Rightarrow>
          (case select_post d pid of
             [] \<Rightarrow> (Response 404 (Message ''Post not found''), d)
           | r # _ \<Rightarrow>
               if post_forbidden u r
               then (Response 403 (Message ''Not authorized to update this post''), d)
               else (Response 200 (Message ''Entity link removed successfully''),
                     d\<lparr>posts_entities := delete_link (posts_entities d) pid\<rparr>)))"

text \<open>The transaction of \<^verbatim>\<open>router.post('/posts', ...)\<close>.\<close>

definition create_post_tx ::
  "tx_fault \<Rightarrow> user \<Rightarrow> string \<Rightarrow> string option \<Rightarrow> (string \<times> int) option \<Rightarrow> nat \<Rightarrow> db
     \<Rightarrow> response \<times> db" where
  "create_post_tx fault u content img tgt now d =
     (if fault = AtBegin \<or> fault = AtOwnerWrite then (server_error, d)
      else
        (case sql_insert_post (uid u) content img now d of
           (Inl err, d1) \<Rightarrow> (server_error, rollback d d1)
         | (Inr r, d1) \<Rightarrow>
             (case (case tgt of
                      None \<Rightarrow> Inr (posts_entities d1)
                    | Some (k, e) \<Rightarrow>
                        if fault = AtLinkWrite then Inl ConnectionFailure
                        else insert_link (map p_id (posts d1)) (posts_entities d1)
                               \<lparr>owner_id = p_id r, entity_type = k, entity_id = e\<rparr>) of
                Inl err \<Rightarrow> (server_error, rollback d d1)
              | Inr t \<Rightarrow>
                  if fault = AtCommit then (server_error, rollback d d1)
                  else if fault = AfterCommit then (server_error, d1\<lparr>posts_entities := t\<rparr>)
                  else (Response 201 (PostJson r tgt), d1\<lparr>posts_entities := t\<rparr>))))"

text \<open>\<^verbatim>\<open>router.post('/posts', ...)\<close>\<close>

definition create_post ::
  "tx_fault \<Rightarrow> user \<Rightarrow> string option \<Rightarrow> string option \<Rightarrow> string option
     \<Rightarrow> upload option \<Rightarrow> nat \<Rightarrow> db \<Rightarrow> response \<times> db" where
  "create_post fault u content entityType entityId file now d =
     (if \<not> truthy content
      then (Response 400 (Message ''Content is required''), d)
      else if invalid_kind entityType
      then (Response 400 (Message ''Invalid entity type''), d)
      else
        (case check_target d (link_target entityType entityId) of
           TargetThrows \<Rightarrow> (server_error, d)
         | TargetMissing \<Rightarrow> (kind_not_found entityType, d)
         | TargetOk tgt \<Rightarrow>
             if file = Some UploadError then (server_error, d)
             else create_post_tx fault u (text_of content) (image_of file None) tgt now d))"

text \<open>The transaction of \<^verbatim>\<open>router.put('/posts/:id', ...)\<close>.\<close>

definition update_post_tx ::
  "tx_fault \<Rightarrow> int \<Rightarrow> string \<Rightarrow> string option \<Rightarrow> (string \<times> int) option \<Rightarrow> nat \<Rightarrow> db
     \<Rightarrow> response \<times> db" where
  "update_post_tx fault pid content img tgt now d =
     (if fault = AtBegin \<or> fault = AtOwnerWrite then (server_error, d)
      else
        (case sql_update_post pid content img now d of
           Inl err \<Rightarrow> (server_error, rollback d d)
         | Inr d1 \<Rightarrow>
             (case (case tgt of
                      Some (k, e) \<Rightarrow>
                        if fault = AtLinkRead \<or> fault = AtLinkWrite then Inl ConnectionFailure
                        else write_link (map p_id (posts d1)) (posts_entities d1) pid k e
                    | None \<Rightarrow>
                        if fault = AtLinkWrite then Inl ConnectionFailure
                        else Inr (delete_link (posts_entities d1) pid)) of
                Inl err \<Rightarrow> (server_error, rollback d d1)
              | Inr t \<Rightarrow>
                  if fault = AtCommit then (server_error, rollback d d1)
                  else if fault = AfterCommit then (server_error, d1\<lparr>posts_entities := t\<rparr>)
                  else (Response 200 (post_json (d1\<lparr>posts_entities := t\<rparr>) pid),
                        d1\<lparr>posts_entities := t\<rparr>))))"

text \<open>\<^verbatim>\<open>router.put('/posts/:id', ...)\<close>\<close>

definition update_post ::
  "tx_fault \<Rightarrow> user \<Rightarrow> string \<Rightarrow> string option \<Rightarrow> string option \<Rightarrow> string option
     \<Rightarrow> upload option \<Rightarrow> nat \<Rightarrow> db \<Rightarrow> response \<times> db" where
  "update_post fault u ident content entityType entityId file now d =
     (if \<not> truthy content
      then (Response 400 (Message ''Content is required''), d)
      else if invalid_kind entityType
      then (Response 400 (Message ''Invalid entity type''), d)
      else
        (case pg_int4 ident of
           None \<Rightarrow> (server_error, d)
         | Some pid \<Rightarrow>
             (case select_post d pid of
                [] \<Rightarrow> (Response 404 (Message ''Post not found''), d)
              | r # _ \<Rightarrow>
                  if post_forbidden u r
                  then (Response 403 (Message ''Not authorized to update this post''), d)
                  else
                    (case check_target d (link_target entityType entityId) of
                       TargetThrows \<Rightarrow> (server_error, d)
                     | TargetMissing \<Rightarrow> (kind_not_found entityType, d)
                     | TargetOk tgt \<Rightarrow>
                         if file = Some UploadError then (server_error, d)
                         else update_post_tx fault pid (text_of content)
                                (image_of file (p_image_url r)) tgt now d))))"

text \<open>\<^verbatim>\<open>router.delete('/posts/:id', ...)\<close>\<close>

definition delete_post :: "user \<Rightarrow> string \<Rightarrow> db \<Rightarrow> response \<times> db" where
  "delete_post u ident d =
     (case pg_int4 ident of
        None \<Rightarrow> (server_error, d)
      | Some pid \<Rightarrow>
          (case select_post d pid of
             [] \<Rightarrow> (Response 404 (Message ''Post not found''), d)
           | r # _ \<Rightarrow>
               if post_forbidden u r
               then (Response 403 (Message ''Not authorized to delete this post''), d)
               else (Response 200 (Message ''Post deleted successfully''),
                     sql_delete_post pid d)))"

section \<open>The ownership policy of the specification\<close>


section \<open>The news router\<close>

text \<open>
  The router of \<^verbatim>\<open>routes/news.js\<close> is the list of its routes in the order of their
  registration. A path is the list of its segments; a pattern segment is a literal,
  compared without regard to case as the router's default is, or a named parameter,
  which takes any non-empty segment. The router hands a request to the first route whose
  method and pattern match, and no handler of this file passes the request on
  (none calls \<^verbatim>\<open>next\<close>).
\<close>

datatype http_method = GET | POST | PUT | DELETE

datatype segment = Lit string | Param string

datatype news_route =
    GetAllNews
  | GetNewsById
  | GetNewsFor
  | GetNewsWithEntity
  | LinkNews
  | UnlinkNews
  | GetEntityNews
  | CreateNews
  | UpdateNews
  | DeleteNews

definition news_routes :: "(http_method \<times> segment list \<times> news_route) list" where
  "news_routes =
     [(GET, [], GetAllNews),
      (GET, [Param ''id''], GetNewsById),
      (GET, [Lit ''for'', Param ''type'', Param ''id''], GetNewsFor),
      (GET, [Lit ''with-entity''], GetNewsWithEntity),
      (POST, [Param ''id'', Lit ''link'', Param ''entityType'', Param ''entityId''], LinkNews),
      (DELETE, [Param ''id'', Lit ''unlink''], UnlinkNews),
      (GET, [Lit ''entity'', Param ''entityType'', Param ''entityId''], GetEntityNews),
      (POST, [], CreateNews),
      (PUT, [Param ''id''], UpdateNews),
      (DELETE, [Param ''id''], DeleteNews)]"

definition to_lower :: "char \<Rightarrow> char" where
  "to_lower c =
     (let n = (of_char c :: nat) in if 65 \<le> n \<and> n \<le> 90 then char_of (n + 32) else c)"

fun match_path :: "segment list \<Rightarrow> string list \<Rightarrow> (string \<times> string) list option" where
  "match_path [] [] = Some []"
| "match_path (Lit l # ps) (s # ss) =
     (if map to_lower l = map to_lower s then match_path ps ss else None)"
| "match_path (Param n # ps) (s # ss) =
     (if s = [] then None
      else (case match_path ps ss of None \<Rightarrow> None | Some vs \<Rightarrow> Some ((n, s) # vs)))"
| "match_path _ _ = None"

fun dispatch ::
  "(http_method \<times> segment list \<times> 'h) list \<Rightarrow> http_method \<Rightarrow> string list
     \<Rightarrow> ('h \<times> (string \<times> string) list) option" where
  "dispatch [] m path = None"
| "dispatch ((m', pat, h) # rs) m path =
     (if m' = m
      then (case match_path pat path of
              Some vs \<Rightarrow> Some (h, vs)
            | None \<Rightarrow> dispatch rs m path)
      else dispatch rs m path)"

section \<open>Sequences of requests\<close>

text \<open>The requests that change the store, one constructor for each route.\<close>

datatype request =
    NewsCreate tx_fault user "string option" "string option" "string option" "string option"
      "upload option" nat
  | NewsUpdate tx_fault user string "string option" "string option" "string option"
      "string option" "upload option" nat
  | NewsLink user string string string
  | NewsUnlink user string
  | NewsDelete user string
  | PostsCreate tx_fault user "string option" "string option" "string option" "upload option" nat
  | PostsUpdate tx_fault user string "string option" "string option" "string option"
      "upload option" nat
  | PostsLink user string string string
  | PostsUnlink user string
  | PostsDelete user string

fun handle :: "request \<Rightarrow> db \<Rightarrow> response \<times> db" where
  "handle (NewsCreate f u t c lt li file now) d = create_news f u t c lt li file now d"
| "handle (NewsUpdate f u i t c lt li file now) d = update_news f u i t c lt li file now d"
| "handle (NewsLink u i k e) d = link_news u i k e d"
| "handle (NewsUnlink u i) d = unlink_news u i d"
| "handle (NewsDelete u i) d = delete_news u i d"
| "handle (PostsCreate f u c lt li file now) d = create_post f u c lt li file now d"
| "handle (PostsUpdate f u i c lt li file now) d = update_post f u i c lt li file now d"
| "handle (PostsLink u i k e) d = link_post u i k e d"
| "handle (PostsUnlink u i) d = unlink_post u i d"
| "handle (PostsDelete u i) d = delete_post u i d"

fun run :: "request list \<Rightarrow> db \<Rightarrow> db" where
  "run [] d = d"
| "run (q # qs) d = run qs (snd (handle q d))"

text \<open>
  The two constraints of a link table: its primary key is the owner's id, and the kind of
  every row is one of the three.
\<close>

definition link_inv :: "entity_link list \<Rightarrow> bool" where
  "link_inv t =
     (distinct (map owner_id t) \<and> list_all (\<lambda>l. entity_type l \<in> set entity_kinds) t)"

section \<open>The store after a create that committed\<close>




section \<open>A small store\<close>

text \<open>
  Two users, one class, one module, one news item and one post, both written by user 5 and both
  linked to class 3.
\<close>

definition store0 :: db where
  "store0 =
     \<lparr>users = [5, 9], classes = [3], modules = [4], assignments = [],
      news = [\<lparr>n_id = 1, n_title = ''Midterm info'', n_content = ''Room 2'',
               n_image_url = None, n_created_by = 5, n_created_at = 10, n_updated_at = 10\<rparr>],
      news_seq = 2,
      news_entities = [\<lparr>owner_id = 1, entity_type = ''class'', entity_id = 3\<rparr>],
      posts = [\<lparr>p_id = 1, p_user_id = 5, p_content = ''Hello'', p_image_url = None,
                p_created_at = 11, p_updated_at = 11\<rparr>],
      posts_seq = 2,
      posts_entities = [\<lparr>owner_id = 1, entity_type = ''class'', entity_id = 3\<rparr>]\<rparr>"

definition author :: user where
  "author = \<lparr>uid = 5, role = ''praktikan''\<rparr>"

definition assistant :: user where
  "assistant = \<lparr>uid = 9, role = ''aslab''\<rparr>"


text \<open>
  A sequence of requests on that store: a news item is created with a link, linked again
  and updated with a target; the first news item is linked to another entity; the post is
  linked and unlinked; a post is created with a link.
\<close>

definition requests0 :: "request list" where
  "requests0 =
     [NewsCreate NoFault assistant (Some ''Exam'') (Some ''Room 4'') (Some ''class'') (Some ''3'')
        None 12,
      NewsLink assistant ''2'' ''module'' ''4'',
      NewsLink assistant ''1'' ''module'' ''4'',
      NewsUpdate NoFault assistant ''2'' (Some ''Exam'') (Some ''Room 5'') (Some ''class'')
        (Some ''3'') None 13,
      PostsLink author ''1'' ''module'' ''4'',
      PostsUnlink author ''1'',
      PostsCreate NoFault author (Some ''Hi'') (Some ''module'') (Some ''4'') None 14]"

section \<open>Statuses of the routes\<close>

lemma status_server_error [simp]: "status server_error = 500"
  by (simp add: server_error_def)

lemma status_kind_not_found [simp]: "status (kind_not_found k) = 404"
  by (simp add: kind_not_found_def)

lemma create_news_tx_status:
  "status (fst (create_news_tx f u t c i tgt now d)) \<in> {201, 500}"
  by (simp add: create_news_tx_def split: prod.splits sum.splits option.splits)

lemma update_news_tx_status:
  "status (fst (update_news_tx f nid t c i tgt now d)) \<in> {200, 500}"
  by (simp add: update_news_tx_def split: prod.splits sum.splits option.splits)

lemma create_post_tx_status:
  "status (fst (create_post_tx f u c i tgt now d)) \<in> {201, 500}"
  by (simp add: create_post_tx_def split: prod.splits sum.splits option.splits)

lemma update_post_tx_status:
  "status (fst (update_post_tx f pid c i tgt now d)) \<in> {200, 500}"
  by (simp add: update_post_tx_def split: prod.splits sum.splits option.splits)

lemma update_news_tx_not_403 [simp]:
  "status (fst (update_news_tx f nid t c i tgt now d)) \<noteq> 403"
  using update_news_tx_status [of f nid t c i tgt now d] by auto

lemma update_post_tx_not_403 [simp]:
  "status (fst (update_post_tx f pid c i tgt now d)) \<noteq> 403"
  using update_post_tx_status [of f pid c i tgt now d] by auto

lemma pg_int4_1: "pg_int4 ''1'' = Some 1"
  by code_simp

lemma pg_int4_3: "pg_int4 ''3'' = Some 3"
  by code_simp

section \<open>Who may change an owner record\<close>




















section \<open>Existence is checked before ownership\<close>










section \<open>Deleting and clearing links\<close>


lemma select_link_delete_link [simp]: "select_link (delete_link t oid) oid = []"
  by (simp add: select_link_def delete_link_def)

lemma select_link_delete_link_other:
  "oid' \<noteq> oid \<Longrightarrow> select_link (delete_link t oid) oid' = select_link t oid'"
  by (induction t) (auto simp add: select_link_def delete_link_def)

lemma delete_news_cascade:
  "pg_int4 ident = Some oid \<Longrightarrow> status (fst (delete_news u ident d)) = 200 \<Longrightarrow>
     select_news (snd (delete_news u ident d)) oid = [] \<and>
     select_link (news_entities (snd (delete_news u ident d))) oid = [] \<and>
     posts_entities (snd (delete_news u ident d)) = posts_entities d"
  by (auto simp add: delete_news_def sql_delete_news_def select_news_def
      split: list.splits if_splits)

lemma delete_post_cascade:
  "pg_int4 ident = Some oid \<Longrightarrow> status (fst (delete_post u ident d)) = 200 \<Longrightarrow>
     select_post (snd (delete_post u ident d)) oid = [] \<and>
     select_link (posts_entities (snd (delete_post u ident d))) oid = [] \<and>
     news_entities (snd (delete_post u ident d)) = news_entities d"
  by (auto simp add: delete_post_def sql_delete_post_def select_post_def
      split: list.splits if_splits)

lemma delete_news_succeeds:
  "pg_int4 ident = Some oid \<Longrightarrow> select_news d oid = r # rs \<Longrightarrow> \<not> news_forbidden u r \<Longrightarrow>
     delete_news u ident d = (Response 200 (Message ''News deleted successfully''), sql_delete_news oid d)"
  by (simp add: delete_news_def)

lemma delete_post_succeeds:
  "pg_int4 ident = Some oid \<Longrightarrow> select_post d oid = r # rs \<Longrightarrow> \<not> post_forbidden u r \<Longrightarrow>
     delete_post u ident d = (Response 200 (Message ''Post deleted successfully''), sql_delete_post oid d)"
  by (simp add: delete_post_def)

text \<open>
  C8. The delete routes issue one statement, \<^verbatim>\<open>DELETE FROM news WHERE id = $1\<close>
  (\<^verbatim>\<open>DELETE FROM posts ...\<close>), and the link row goes with the owner through the
  \<^verbatim>\<open>ON DELETE CASCADE\<close> of the schema: a delete that the guard allows succeeds, and
  after a delete that succeeded neither the owner record nor a link row of that owner is
  left.
\<close>

theorem delete_cascades:
  assumes "pg_int4 ident = Some oid"
  shows "(select_news d oid = n # ns \<and> \<not> news_forbidden u n \<longrightarrow>
            status (fst (delete_news u ident d)) = 200) \<and>
         (status (fst (delete_news u ident d)) = 200 \<longrightarrow>
            select_news (snd (delete_news u ident d)) oid = [] \<and>
            select_link (news_entities (snd (delete_news u ident d))) oid = []) \<and>
         (select_post d oid = p # ps \<and> \<not> post_forbidden u p \<longrightarrow>
            status (fst (delete_post u ident d)) = 200) \<and>
         (status (fst (delete_post u ident d)) = 200 \<longrightarrow>
            select_post (snd (delete_post u ident d)) oid = [] \<and>
            select_link (posts_entities (snd (delete_post u ident d))) oid = [])"
  using assms
  by (simp add: delete_news_cascade delete_post_cascade delete_news_succeeds delete_post_succeeds)

theorem delete_cascades_witness:
  "pg_int4 ''1'' = Some 1 \<and>
   select_news store0 1 = news store0 \<and> \<not> news_forbidden assistant (hd (news store0)) \<and>
   select_post store0 1 = posts store0 \<and> \<not> post_forbidden author (hd (posts store0)) \<and>
   select_link (news_entities store0) 1 \<noteq> [] \<and>
   select_link (posts_entities store0) 1 \<noteq> [] \<and>
   status (fst (delete_news assistant ''1'' store0)) = 200 \<and>
   select_link (news_entities (snd (delete_news assistant ''1'' store0))) 1 = [] \<and>
   status (fst (delete_post author ''1'' store0)) = 200 \<and>
   select_link (posts_entities (snd (delete_post author ''1'' store0))) 1 = []"
  using delete_cascades [of "''1''" 1 store0 "hd (news store0)" "[]" assistant "hd (posts store0)" "[]"]
    delete_cascades [of "''1''" 1 store0 "hd (news store0)" "[]" author "hd (posts store0)" "[]"]
  by (simp add: pg_int4_1 store0_def select_news_def select_post_def select_link_def
      news_forbidden_def post_forbidden_def assistant_def author_def)

lemma update_news_tx_no_target:
  "status (fst (update_news_tx f oid t c i None now d)) = 200 \<Longrightarrow>
     select_link (news_entities (snd (update_news_tx f oid t c i None now d))) oid = []"
  by (auto simp add: update_news_tx_def sql_update_news_def split: if_splits sum.splits)

lemma update_post_tx_no_target:
  "status (fst (update_post_tx f oid c i None now d)) = 200 \<Longrightarrow>
     select_link (posts_entities (snd (update_post_tx f oid c i None now d))) oid = []"
  by (auto simp add: update_post_tx_def sql_update_post_def split: if_splits sum.splits)

lemma link_target_None [simp]: "link_target None li = None" "link_target lt None = None"
  by (simp_all add: link_target_def split: option.splits)

lemma check_target_None [simp]: "check_target d None = TargetOk None"
  by (simp add: check_target_def)

lemma update_news_no_target:
  "pg_int4 ident = Some oid \<Longrightarrow>
   status (fst (update_news f u ident t c None None file now d)) = 200 \<Longrightarrow>
     select_link (news_entities (snd (update_news f u ident t c None None file now d))) oid = []"
  by (auto simp add: update_news_def update_news_tx_no_target split: if_splits list.splits)

lemma update_post_no_target:
  "pg_int4 ident = Some oid \<Longrightarrow>
   status (fst (update_post f u ident c None None file now d)) = 200 \<Longrightarrow>
     select_link (posts_entities (snd (update_post f u ident c None None file now d))) oid = []"
  by (auto simp add: update_post_def update_post_tx_no_target split: if_splits list.splits)

lemma update_news_succeeds:
  "pg_int4 ident = Some oid \<Longrightarrow> select_news d oid = r # rs \<Longrightarrow> \<not> news_forbidden u r \<Longrightarrow>
   truthy t \<Longrightarrow> truthy c \<Longrightarrow> length (text_of t) \<le> 100 \<Longrightarrow>
   (\<forall>url. n_image_url r = Some url \<longrightarrow> length url \<le> 255) \<Longrightarrow>
     status (fst (update_news NoFault u ident t c None None None now d)) = 200"
  by (auto simp add: update_news_def update_news_tx_def sql_update_news_def invalid_kind_def image_of_def
       split: option.splits)

lemma update_post_succeeds:
  "pg_int4 ident = Some oid \<Longrightarrow> select_post d oid = r # rs \<Longrightarrow> \<not> post_forbidden u r \<Longrightarrow>
   truthy c \<Longrightarrow> (\<forall>url. p_image_url r = Some url \<longrightarrow> length url \<le> 255) \<Longrightarrow>
     status (fst (update_post NoFault u ident c None None None now d)) = 200"
  by (auto simp add: update_post_def update_post_tx_def sql_update_post_def invalid_kind_def image_of_def
       split: option.splits)

text \<open>
  C5. After an update that carries no target and succeeds, no link row of the owner is
  left, for a news item and for a post alike; and such an update does succeed when the
  owner exists, the guard allows the actor, the fields are valid and fit their columns,
  and the store rejects no statement.
\<close>

theorem update_without_target_clears_link:
  assumes "pg_int4 ident = Some oid"
  shows "(status (fst (update_news f u ident title content None None file now d)) = 200 \<longrightarrow>
            select_link (news_entities
              (snd (update_news f u ident title content None None file now d))) oid = []) \<and>
         (status (fst (update_post f u ident content None None file now d)) = 200 \<longrightarrow>
            select_link (posts_entities
              (snd (update_post f u ident content None None file now d))) oid = []) \<and>
         (select_news d oid = n # ns \<and> \<not> news_forbidden u n \<and> truthy title \<and> truthy content \<and>
          length (text_of title) \<le> 100 \<and>
          (\<forall>url. n_image_url n = Some url \<longrightarrow> length url \<le> 255) \<longrightarrow>
            status (fst (update_news NoFault u ident title content None None None now d)) = 200) \<and>
         (select_post d oid = p # ps \<and> \<not> post_forbidden u p \<and> truthy content \<and>
          (\<forall>url. p_image_url p = Some url \<longrightarrow> length url \<le> 255) \<longrightarrow>
            status (fst (update_post NoFault u ident content None None None now d)) = 200)"
  using assms
  by (simp add: update_news_no_target update_post_no_target update_news_succeeds
      update_post_succeeds)

theorem update_without_target_clears_link_witness:
  "pg_int4 ''1'' = Some 1 \<and>
   select_link (news_entities store0) 1 \<noteq> [] \<and>
   select_link (posts_entities store0) 1 \<noteq> [] \<and>
   status (fst (update_news NoFault assistant ''1'' (Some ''Edited'') (Some ''Room 3'') None None None 12 store0)) = 200 \<and>
   select_link (news_entities (snd (update_news NoFault assistant ''1'' (Some ''Edited'') (Some ''Room 3'') None None None 12 store0))) 1 = [] \<and>
   status (fst (update_post NoFault author ''1'' (Some ''Room 3'') None None None 12 store0)) = 200 \<and>
   select_link (posts_entities (snd (update_post NoFault author ''1'' (Some ''Room 3'') None None None 12 store0))) 1 = []"
  using update_without_target_clears_link [of "''1''" 1 NoFault assistant "Some ''Edited''"
      "Some ''Room 3''" None 12 store0 "hd (news store0)" "[]" "hd (posts store0)" "[]"]
    update_without_target_clears_link [of "''1''" 1 NoFault author "Some ''Edited''"
      "Some ''Room 3''" None 12 store0 "hd (news store0)" "[]" "hd (posts store0)" "[]"]
  by (simp add: pg_int4_1 store0_def select_news_def select_post_def select_link_def
      news_forbidden_def post_forbidden_def assistant_def author_def truthy_def text_of_def)


section \<open>Linking to an entity that does not exist\<close>


lemma pg_int4_42: "pg_int4 ''42'' = Some 42" by code_simp

lemma pg_int4_Nil [simp]: "pg_int4 [] = None"
  by (simp add: pg_int4_def)

lemma kinds_nonempty: "k \<in> set entity_kinds \<Longrightarrow> k \<noteq> []"
  by (auto simp add: entity_kinds_def)

lemma kinds_valid: "k \<in> set entity_kinds \<Longrightarrow> \<not> invalid_kind (Some k)"
  by (simp add: invalid_kind_def)

lemma check_target_missing:
  "k \<in> set entity_kinds \<Longrightarrow> pg_int4 e = Some eid \<Longrightarrow> \<not> entity_exists d k eid \<Longrightarrow>
     check_target d (Some (k, e)) = TargetMissing"
  by (simp add: check_target_def)

lemma link_target_Some:
  "k \<in> set entity_kinds \<Longrightarrow> pg_int4 e = Some eid \<Longrightarrow> link_target (Some k) (Some e) = Some (k, e)"
  by (auto simp add: link_target_def kinds_nonempty)

lemma link_unknown_entity_store:
  assumes "k \<in> set entity_kinds" and "pg_int4 e = Some eid" and "\<not> entity_exists d k eid"
  shows "snd (link_news u ident k e d) = d" and "snd (link_post u ident k e d) = d"
  using assms
  by (simp_all add: link_news_def link_post_def check_target_missing
      split: option.splits list.splits)

lemma update_unknown_entity_store:
  assumes "k \<in> set entity_kinds" and "pg_int4 e = Some eid" and "\<not> entity_exists d k eid"
  shows "snd (update_news f u ident t c (Some k) (Some e) file now d) = d"
    and "snd (update_post f u ident c (Some k) (Some e) file now d) = d"
  using assms
  by (simp_all add: update_news_def update_post_def check_target_missing link_target_Some
      split: option.splits list.splits)

lemma link_unknown_entity_response:
  assumes "k \<in> set entity_kinds" and "pg_int4 e = Some eid" and "\<not> entity_exists d k eid"
    and "pg_int4 ident = Some oid"
  shows "select_news d oid = n # ns \<Longrightarrow> \<not> news_forbidden u n \<Longrightarrow>
           fst (link_news u ident k e d) = Response 404 (Message (capitalize k @ '' not found''))"
    and "select_post d oid = p # ps \<Longrightarrow> \<not> post_forbidden u p \<Longrightarrow>
           fst (link_post u ident k e d) = Response 404 (Message (capitalize k @ '' not found''))"
  using assms
  by (simp_all add: link_news_def link_post_def check_target_missing kind_not_found_def text_of_def)

lemma update_unknown_entity_response:
  assumes "k \<in> set entity_kinds" and "pg_int4 e = Some eid" and "\<not> entity_exists d k eid"
    and "pg_int4 ident = Some oid"
  shows "select_news d oid = n # ns \<Longrightarrow> \<not> news_forbidden u n \<Longrightarrow> truthy t \<Longrightarrow> truthy c \<Longrightarrow>
           fst (update_news f u ident t c (Some k) (Some e) file now d)
             = Response 404 (Message (capitalize k @ '' not found''))"
    and "select_post d oid = p # ps \<Longrightarrow> \<not> post_forbidden u p \<Longrightarrow> truthy c \<Longrightarrow>
           fst (update_post f u ident c (Some k) (Some e) file now d)
             = Response 404 (Message (capitalize k @ '' not found''))"
  using assms
  by (simp_all add: update_news_def update_post_def check_target_missing link_target_Some
      kind_not_found_def text_of_def kinds_valid)

text \<open>
  C6. Linking to an entity that does not exist, through a link route or through an
  update, changes nothing in the store, whatever else the request carries; and when the
  owner exists and the guard allows the actor (and, on update, title and content are
  there), the answer is 404 with the message that names the kind.
\<close>

theorem link_to_unknown_entity:
  assumes "k \<in> set entity_kinds" and "pg_int4 e = Some eid" and "\<not> entity_exists d k eid"
    and "pg_int4 ident = Some oid"
  shows "snd (link_news u ident k e d) = d \<and>
         snd (link_post u ident k e d) = d \<and>
         snd (update_news f u ident title content (Some k) (Some e) file now d) = d \<and>
         snd (update_post f u ident content (Some k) (Some e) file now d) = d \<and>
         (select_news d oid = n # ns \<and> \<not> news_forbidden u n \<longrightarrow>
            fst (link_news u ident k e d)
              = Response 404 (Message (capitalize k @ '' not found'')) \<and>
            (truthy title \<and> truthy content \<longrightarrow>
               fst (update_news f u ident title content (Some k) (Some e) file now d)
                 = Response 404 (Message (capitalize k @ '' not found'')))) \<and>
         (select_post d oid = p # ps \<and> \<not> post_forbidden u p \<longrightarrow>
            fst (link_post u ident k e d)
              = Response 404 (Message (capitalize k @ '' not found'')) \<and>
            (truthy content \<longrightarrow>
               fst (update_post f u ident content (Some k) (Some e) file now d)
                 = Response 404 (Message (capitalize k @ '' not found''))))"
  using assms
  by (simp add: link_unknown_entity_store update_unknown_entity_store
      link_unknown_entity_response update_unknown_entity_response)

lemma capitalize_class: "capitalize ''class'' = ''Class''" by code_simp

theorem link_to_unknown_entity_witness:
  "''class'' \<in> set entity_kinds \<and> pg_int4 ''42'' = Some 42 \<and> \<not> entity_exists store0 ''class'' 42 \<and>
   pg_int4 ''1'' = Some 1 \<and> select_news store0 1 = news store0 \<and> select_post store0 1 = posts store0 \<and>
   \<not> news_forbidden author (hd (news store0)) \<and> \<not> post_forbidden author (hd (posts store0)) \<and>
   link_news author ''1'' ''class'' ''42'' store0
     = (Response 404 (Message ''Class not found''), store0) \<and>
   link_post author ''1'' ''class'' ''42'' store0
     = (Response 404 (Message ''Class not found''), store0) \<and>
   update_news NoFault author ''1'' (Some ''Edited'') (Some ''Room 3'') (Some ''class'') (Some ''42'')
       None 12 store0
     = (Response 404 (Message ''Class not found''), store0) \<and>
   update_post NoFault author ''1'' (Some ''Room 3'') (Some ''class'') (Some ''42'') None 12 store0
     = (Response 404 (Message ''Class not found''), store0)"
  using link_to_unknown_entity [of "''class''" "''42''" 42 store0 "''1''" 1 author NoFault
      "Some ''Edited''" "Some ''Room 3''" None 12 "hd (news store0)" "[]" "hd (posts store0)" "[]"]
  by (simp add: pg_int4_1 pg_int4_42 capitalize_class entity_kinds_def entity_exists_def
      store0_def select_news_def select_post_def news_forbidden_def post_forbidden_def
      author_def truthy_def prod_eq_iff)


section \<open>Linking twice\<close>


lemma kinds_short: "k \<in> set entity_kinds \<Longrightarrow> \<not> 20 < length k"
  by (auto simp add: entity_kinds_def)

lemma select_link_Nil_iff: "select_link t oid = [] \<longleftrightarrow> oid \<notin> set (map owner_id t)"
  by (auto simp add: select_link_def filter_empty_conv)

lemma map_set_link_idem:
  "map (\<lambda>l. if owner_id l = oid then l\<lparr>entity_type := k, entity_id := e\<rparr> else l)
     (map (\<lambda>l. if owner_id l = oid then l\<lparr>entity_type := k, entity_id := e\<rparr> else l) t)
   = map (\<lambda>l. if owner_id l = oid then l\<lparr>entity_type := k, entity_id := e\<rparr> else l) t"
  by (induction t) auto

lemma map_set_link_absent:
  "oid \<notin> set (map owner_id t) \<Longrightarrow>
     map (\<lambda>l. if owner_id l = oid then l\<lparr>entity_type := k, entity_id := e\<rparr> else l) t = t"
  by (induction t) auto

lemma select_link_map_set_link:
  "distinct (map owner_id t) \<Longrightarrow> oid \<in> set (map owner_id t) \<Longrightarrow>
     select_link (map (\<lambda>l. if owner_id l = oid then l\<lparr>entity_type := k, entity_id := e\<rparr> else l) t) oid
       = [\<lparr>owner_id = oid, entity_type = k, entity_id = e\<rparr>]"
proof (induction t)
  case Nil
  then show ?case by simp
next
  case (Cons l t)
  show ?case
  proof (cases "owner_id l = oid")
    case True
    with Cons.prems have "oid \<notin> set (map owner_id t)" by auto
    then have "select_link (map (\<lambda>l. if owner_id l = oid then l\<lparr>entity_type := k, entity_id := e\<rparr> else l) t) oid = []"
      by (simp add: map_set_link_absent select_link_Nil_iff)
    with True show ?thesis by (simp add: select_link_def)
  next
    case False
    with Cons show ?thesis by (auto simp add: select_link_def)
  qed
qed

lemma write_link_twice:
  assumes "k \<in> set entity_kinds" and "oid \<in> set owners" and "distinct (map owner_id t)"
  shows "\<exists>t'. write_link owners t oid k e = Inr t' \<and> write_link owners t' oid k e = Inr t' \<and>
           select_link t' oid = [\<lparr>owner_id = oid, entity_type = k, entity_id = e\<rparr>]"
proof (cases "select_link t oid = []")
  case True
  then have absent: "oid \<notin> set (map owner_id t)"
    by (simp add: select_link_Nil_iff)
  let ?l = "\<lparr>owner_id = oid, entity_type = k, entity_id = e\<rparr>"
  have first: "write_link owners t oid k e = Inr (t @ [?l])"
    using assms True absent by (simp add: write_link_def insert_link_def kinds_short)
  have sel: "select_link (t @ [?l]) oid = [?l]"
    using True by (simp add: select_link_def)
  have "write_link owners (t @ [?l]) oid k e = Inr (t @ [?l])"
    using assms sel absent
    by (simp add: write_link_def update_link_def kinds_short map_set_link_absent)
  with first sel show ?thesis by simp
next
  case False
  then have present: "oid \<in> set (map owner_id t)"
    by (simp add: select_link_Nil_iff)
  let ?t = "map (\<lambda>l. if owner_id l = oid then l\<lparr>entity_type := k, entity_id := e\<rparr> else l) t"
  have first: "write_link owners t oid k e = Inr ?t"
    using assms False by (simp add: write_link_def update_link_def kinds_short)
  have sel: "select_link ?t oid = [\<lparr>owner_id = oid, entity_type = k, entity_id = e\<rparr>]"
    using assms present by (rule_tac select_link_map_set_link)
  have "write_link owners ?t oid k e = Inr ?t"
    using assms sel by (simp add: write_link_def update_link_def kinds_short map_set_link_idem)
  with first sel show ?thesis by simp
qed

lemma select_news_member: "select_news d oid = r # rs \<Longrightarrow> oid \<in> set (map n_id (news d))"
  by (auto simp add: select_news_def filter_eq_Cons_iff)

lemma select_post_member: "select_post d oid = r # rs \<Longrightarrow> oid \<in> set (map p_id (posts d))"
  by (auto simp add: select_post_def filter_eq_Cons_iff)

lemma check_target_found:
  "k \<in> set entity_kinds \<Longrightarrow> pg_int4 e = Some eid \<Longrightarrow> entity_exists d k eid \<Longrightarrow>
     check_target d (Some (k, e)) = TargetOk (Some (k, eid))"
  by (simp add: check_target_def)

lemma entity_exists_news_entities [simp]:
  "entity_exists (d\<lparr>news_entities := t\<rparr>) k e = entity_exists d k e"
  "entity_exists (d\<lparr>posts_entities := t\<rparr>) k e = entity_exists d k e"
  by (simp_all add: entity_exists_def)

lemma select_owner_entities [simp]:
  "select_news (d\<lparr>news_entities := t\<rparr>) oid = select_news d oid"
  "select_post (d\<lparr>posts_entities := t\<rparr>) oid = select_post d oid"
  by (simp_all add: select_news_def select_post_def)

lemma link_news_twice:
  assumes "pg_int4 ident = Some oid" and "k \<in> set entity_kinds" and "pg_int4 e = Some eid"
    and "entity_exists d k eid" and "select_news d oid = n # ns" and "\<not> news_forbidden u n"
    and "distinct (map owner_id (news_entities d))"
  shows "status (fst (link_news u ident k e d)) = 200 \<and>
         status (fst (link_news u ident k e (snd (link_news u ident k e d)))) = 200 \<and>
         snd (link_news u ident k e (snd (link_news u ident k e d))) = snd (link_news u ident k e d) \<and>
         select_link (news_entities (snd (link_news u ident k e (snd (link_news u ident k e d))))) oid
           = [\<lparr>owner_id = oid, entity_type = k, entity_id = eid\<rparr>]"
proof -
  have "oid \<in> set (map n_id (news d))"
    using assms(5) by (rule select_news_member)
  with assms obtain t' where
    w1: "write_link (map n_id (news d)) (news_entities d) oid k eid = Inr t'" and
    w2: "write_link (map n_id (news d)) t' oid k eid = Inr t'" and
    sel: "select_link t' oid = [\<lparr>owner_id = oid, entity_type = k, entity_id = eid\<rparr>]"
    using write_link_twice [of k oid "map n_id (news d)" "news_entities d" eid] by auto
  have once: "link_news u ident k e d
                = (Response 200 (Message ''Entity linked successfully''), d\<lparr>news_entities := t'\<rparr>)"
    using assms w1 by (simp add: link_news_def check_target_found)
  have twice: "link_news u ident k e (d\<lparr>news_entities := t'\<rparr>)
                 = (Response 200 (Message ''Entity linked successfully''), d\<lparr>news_entities := t'\<rparr>)"
    using assms w2 by (simp add: link_news_def check_target_found)
  show ?thesis by (simp add: once twice sel)
qed

lemma link_post_twice:
  assumes "pg_int4 ident = Some oid" and "k \<in> set entity_kinds" and "pg_int4 e = Some eid"
    and "entity_exists d k eid" and "select_post d oid = p # ps" and "\<not> post_forbidden u p"
    and "distinct (map owner_id (posts_entities d))"
  shows "status (fst (link_post u ident k e d)) = 200 \<and>
         status (fst (link_post u ident k e (snd (link_post u ident k e d)))) = 200 \<and>
         snd (link_post u ident k e (snd (link_post u ident k e d))) = snd (link_post u ident k e d) \<and>
         select_link (posts_entities (snd (link_post u ident k e (snd (link_post u ident k e d))))) oid
           = [\<lparr>owner_id = oid, entity_type = k, entity_id = eid\<rparr>]"
proof -
  have "oid \<in> set (map p_id (posts d))"
    using assms(5) by (rule select_post_member)
  with assms obtain t' where
    w1: "write_link (map p_id (posts d)) (posts_entities d) oid k eid = Inr t'" and
    w2: "write_link (map p_id (posts d)) t' oid k eid = Inr t'" and
    sel: "select_link t' oid = [\<lparr>owner_id = oid, entity_type = k, entity_id = eid\<rparr>]"
    using write_link_twice [of k oid "map p_id (posts d)" "posts_entities d" eid] by auto
  have once: "link_post u ident k e d
                = (Response 200 (Message ''Entity linked successfully''), d\<lparr>posts_entities := t'\<rparr>)"
    using assms w1 by (simp add: link_post_def check_target_found)
  have twice: "link_post u ident k e (d\<lparr>posts_entities := t'\<rparr>)
                 = (Response 200 (Message ''Entity linked successfully''), d\<lparr>posts_entities := t'\<rparr>)"
    using assms w2 by (simp add: link_post_def check_target_found)
  show ?thesis by (simp add: once twice sel)
qed

lemma pg_int4_4: "pg_int4 ''4'' = Some 4" by code_simp

text \<open>
  C4. Where the primary key of the link table holds, the owner exists, the guard allows
  the actor and the entity exists, linking twice with the same arguments succeeds both
  times, the second call leaves the store as the first left it, and the owner has
  exactly one link row, holding the kind and the entity id of the request.
\<close>

theorem set_link_twice:
  assumes "pg_int4 ident = Some oid" and "k \<in> set entity_kinds" and "pg_int4 e = Some eid"
    and "entity_exists d k eid"
  shows "(select_news d oid = n # ns \<and> \<not> news_forbidden u n \<and>
          distinct (map owner_id (news_entities d)) \<longrightarrow>
            status (fst (link_news u ident k e d)) = 200 \<and>
            status (fst (link_news u ident k e (snd (link_news u ident k e d)))) = 200 \<and>
            snd (link_news u ident k e (snd (link_news u ident k e d)))
              = snd (link_news u ident k e d) \<and>
            select_link
              (news_entities (snd (link_news u ident k e (snd (link_news u ident k e d))))) oid
              = [\<lparr>owner_id = oid, entity_type = k, entity_id = eid\<rparr>]) \<and>
         (select_post d oid = p # ps \<and> \<not> post_forbidden u p \<and>
          distinct (map owner_id (posts_entities d)) \<longrightarrow>
            status (fst (link_post u ident k e d)) = 200 \<and>
            status (fst (link_post u ident k e (snd (link_post u ident k e d)))) = 200 \<and>
            snd (link_post u ident k e (snd (link_post u ident k e d)))
              = snd (link_post u ident k e d) \<and>
            select_link
              (posts_entities (snd (link_post u ident k e (snd (link_post u ident k e d))))) oid
              = [\<lparr>owner_id = oid, entity_type = k, entity_id = eid\<rparr>])"
  using assms link_news_twice [of ident oid k e eid d n ns u]
    link_post_twice [of ident oid k e eid d p ps u]
  by blast

theorem set_link_twice_witness:
  "pg_int4 ''1'' = Some 1 \<and> ''module'' \<in> set entity_kinds \<and> pg_int4 ''4'' = Some 4 \<and>
   entity_exists store0 ''module'' 4 \<and>
   select_news store0 1 = news store0 \<and> \<not> news_forbidden author (hd (news store0)) \<and>
   distinct (map owner_id (news_entities store0)) \<and>
   select_post store0 1 = posts store0 \<and> \<not> post_forbidden author (hd (posts store0)) \<and>
   distinct (map owner_id (posts_entities store0)) \<and>
   status (fst (link_news author ''1'' ''module'' ''4''
                  (snd (link_news author ''1'' ''module'' ''4'' store0)))) = 200 \<and>
   select_link (news_entities (snd (link_news author ''1'' ''module'' ''4''
                  (snd (link_news author ''1'' ''module'' ''4'' store0))))) 1
     = [\<lparr>owner_id = 1, entity_type = ''module'', entity_id = 4\<rparr>] \<and>
   status (fst (link_post author ''1'' ''module'' ''4''
                  (snd (link_post author ''1'' ''module'' ''4'' store0)))) = 200 \<and>
   select_link (posts_entities (snd (link_post author ''1'' ''module'' ''4''
                  (snd (link_post author ''1'' ''module'' ''4'' store0))))) 1
     = [\<lparr>owner_id = 1, entity_type = ''module'', entity_id = 4\<rparr>]"
  using set_link_twice [of "''1''" 1 "''module''" "''4''" 4 store0 "hd (news store0)" "[]" author
      "hd (posts store0)" "[]"]
  by (auto simp add: pg_int4_1 pg_int4_4 entity_kinds_def entity_exists_def store0_def
      select_news_def select_post_def news_forbidden_def post_forbidden_def author_def)


section \<open>A partial target on update\<close>

lemma link_target_partial: "\<not> (truthy lt \<and> truthy li) \<Longrightarrow> link_target lt li = None"
  by (auto simp add: truthy_def link_target_def split: option.splits)

lemma invalid_kind_None: "\<not> invalid_kind None"
  by (simp add: invalid_kind_def)

lemma update_news_partial:
  assumes "\<not> (truthy lt \<and> truthy li)" and "\<not> invalid_kind lt"
  shows "update_news f u ident t c lt li file now d
           = update_news f u ident t c None None file now d"
proof -
  have "link_target lt li = None"
    using assms(1) by (rule link_target_partial)
  with assms(2) show ?thesis
    by (simp add: update_news_def invalid_kind_None split: option.splits list.splits)
qed

lemma update_post_partial:
  assumes "\<not> (truthy lt \<and> truthy li)" and "\<not> invalid_kind lt"
  shows "update_post f u ident c lt li file now d
           = update_post f u ident c None None file now d"
proof -
  have "link_target lt li = None"
    using assms(1) by (rule link_target_partial)
  with assms(2) show ?thesis
    by (simp add: update_post_def invalid_kind_None split: option.splits list.splits)
qed

text \<open>
  C10. On update, a target of which the kind or the entity id is missing (or empty) is
  no target: with a kind that passes validation, no target is verified, the route does
  exactly what it does when neither field is sent, and an update that succeeds leaves no
  link row of the owner.
\<close>

theorem partial_target_is_no_target:
  assumes "\<not> (truthy kind \<and> truthy eid)" and "\<not> invalid_kind kind"
  shows "check_target d (link_target kind eid) = TargetOk None \<and>
         update_news f u ident title content kind eid file now d
           = update_news f u ident title content None None file now d \<and>
         update_post f u ident content kind eid file now d
           = update_post f u ident content None None file now d \<and>
         (pg_int4 ident = Some oid \<and>
          status (fst (update_news f u ident title content kind eid file now d)) = 200 \<longrightarrow>
            select_link (news_entities
              (snd (update_news f u ident title content kind eid file now d))) oid = []) \<and>
         (pg_int4 ident = Some oid \<and>
          status (fst (update_post f u ident content kind eid file now d)) = 200 \<longrightarrow>
            select_link (posts_entities
              (snd (update_post f u ident content kind eid file now d))) oid = [])"
proof -
  have "link_target kind eid = None"
    using assms(1) by (rule link_target_partial)
  then have a: "check_target d (link_target kind eid) = TargetOk None"
    by (simp add: check_target_None)
  have n: "update_news f u ident title content kind eid file now d
             = update_news f u ident title content None None file now d"
    using assms by (rule update_news_partial)
  have p: "update_post f u ident content kind eid file now d
             = update_post f u ident content None None file now d"
    using assms by (rule update_post_partial)
  show ?thesis
    by (simp add: a n p update_news_no_target update_post_no_target)
qed

theorem partial_target_is_no_target_witness:
  "\<not> (truthy (Some ''class'') \<and> truthy None) \<and> \<not> invalid_kind (Some ''class'') \<and>
   \<not> (truthy None \<and> truthy (Some ''3'')) \<and> \<not> invalid_kind None \<and>
   pg_int4 ''1'' = Some 1 \<and>
   select_link (news_entities store0) 1 \<noteq> [] \<and>
   select_link (posts_entities store0) 1 \<noteq> [] \<and>
   status (fst (update_news NoFault author ''1'' (Some ''Edited'') (Some ''Room 3'')
                  (Some ''class'') None None 12 store0)) = 200 \<and>
   select_link (news_entities (snd (update_news NoFault author ''1'' (Some ''Edited'')
                  (Some ''Room 3'') (Some ''class'') None None 12 store0))) 1 = [] \<and>
   status (fst (update_post NoFault author ''1'' (Some ''Room 3'') None (Some ''3'') None 12
                  store0)) = 200 \<and>
   select_link (posts_entities (snd (update_post NoFault author ''1'' (Some ''Room 3'') None
                  (Some ''3'') None 12 store0))) 1 = []"
  using partial_target_is_no_target [of "Some ''class''" None store0 NoFault author "''1''"
      "Some ''Edited''" "Some ''Room 3''" None 12 1]
    partial_target_is_no_target [of None "Some ''3''" store0 NoFault author "''1''"
      "Some ''Edited''" "Some ''Room 3''" None 12 1]
  by (simp add: truthy_def invalid_kind_def entity_kinds_def pg_int4_1 store0_def author_def
      select_link_def update_news_def update_post_def update_news_tx_def update_post_tx_def
      sql_update_news_def sql_update_post_def select_news_def select_post_def news_forbidden_def
      post_forbidden_def text_of_def image_of_def delete_link_def news_json_def post_json_def)


section \<open>The route that is never reached\<close>


lemma match_path_Nil_Cons: "match_path [] (s # ss) = None"
  by simp

text \<open>
  C9. \<^verbatim>\<open>GET /with-entity\<close> is handed to the route \<^verbatim>\<open>/:id\<close>, registered before
  \<^verbatim>\<open>/with-entity\<close>, with \<^verbatim>\<open>id = 'with-entity'\<close>; that handler's query throws on an id
  that is no integer, so the answer is 500. No request, whatever its method and path, is
  handed to the \<^verbatim>\<open>/with-entity\<close> route.
\<close>

theorem with_entity_route_is_shadowed:
  "dispatch news_routes GET [''with-entity''] = Some (GetNewsById, [(''id'', ''with-entity'')]) \<and>
   get_news_by_id ''with-entity'' d = server_error \<and>
   dispatch news_routes m path \<noteq> Some (GetNewsWithEntity, vs)"
proof -
  have a: "dispatch news_routes GET [''with-entity''] = Some (GetNewsById, [(''id'', ''with-entity'')])"
    by (simp add: news_routes_def)
  have "pg_int4 ''with-entity'' = None"
    by (simp add: pg_int4_def is_space_def is_digit_def)
  then have b: "get_news_by_id ''with-entity'' d = server_error"
    by (simp add: get_news_by_id_def)
  have c: "dispatch news_routes m path \<noteq> Some (GetNewsWithEntity, vs)"
  proof (cases path)
    case Nil
    then show ?thesis by (cases m) (simp_all add: news_routes_def)
  next
    case (Cons s ss)
    show ?thesis
    proof (cases ss)
      case Nil
      with Cons show ?thesis
        by (cases m; cases "s = []") (simp_all add: news_routes_def)
    next
      case (Cons s' ss')
      with \<open>path = s # ss\<close> show ?thesis
        by (cases m) (simp_all add: news_routes_def split: option.splits)
    qed
  qed
  from a b c show ?thesis by simp
qed

theorem with_entity_route_is_shadowed_witness:
  "dispatch news_routes GET [''with-entity''] = Some (GetNewsById, [(''id'', ''with-entity'')]) \<and>
   get_news_by_id ''with-entity'' store0 = Response 500 (Message ''Server error'') \<and>
   dispatch news_routes GET [''with-entity''] \<noteq> Some (GetNewsWithEntity, [])"
  using with_entity_route_is_shadowed [of store0 GET "[''with-entity'']" "[]"]
  by (simp add: server_error_def)


section \<open>Create is all or nothing\<close>


lemma tables_rollback [simp]: "tables (rollback d d1) = tables d"
  by (simp add: tables_def rollback_def)




















section \<open>One link row for each owner\<close>


lemma link_inv_insert_link:
  "link_inv t \<Longrightarrow> insert_link owners t l = Inr t' \<Longrightarrow> link_inv t'"
  by (auto simp add: link_inv_def insert_link_def split: if_splits)

lemma owner_id_set_link:
  "map owner_id (map (\<lambda>l. if owner_id l = oid then l\<lparr>entity_type := k, entity_id := e\<rparr> else l) t)
     = map owner_id t"
  by (induction t) auto

lemma link_inv_update_link:
  assumes "link_inv t" and "update_link t oid k e = Inr t'"
  shows "link_inv t'"
proof (cases "select_link t oid = []")
  case True
  then have "oid \<notin> set (map owner_id t)"
    by (simp add: select_link_Nil_iff)
  then have "map (\<lambda>l. if owner_id l = oid then l\<lparr>entity_type := k, entity_id := e\<rparr> else l) t = t"
    by (rule map_set_link_absent)
  with assms show ?thesis
    by (auto simp add: update_link_def split: if_splits)
next
  case False
  with assms(2) have k: "k \<in> set entity_kinds"
    and t': "t' = map (\<lambda>l. if owner_id l = oid then l\<lparr>entity_type := k, entity_id := e\<rparr> else l) t"
    by (auto simp add: update_link_def split: if_splits)
  have "map owner_id t' = map owner_id t"
    unfolding t' by (rule owner_id_set_link)
  with assms(1) have "distinct (map owner_id t')"
    by (simp add: link_inv_def)
  moreover have "list_all (\<lambda>l. entity_type l \<in> set entity_kinds) t'"
    using assms(1) k by (auto simp add: t' link_inv_def list_all_iff)
  ultimately show ?thesis by (simp add: link_inv_def)
qed

lemma link_inv_write_link:
  "link_inv t \<Longrightarrow> write_link owners t oid k e = Inr t' \<Longrightarrow> link_inv t'"
  by (auto simp add: write_link_def dest: link_inv_insert_link link_inv_update_link split: if_splits)

lemma link_inv_delete_link: "link_inv t \<Longrightarrow> link_inv (delete_link t oid)"
  by (auto simp add: link_inv_def delete_link_def distinct_map_filter list_all_iff)

lemma distinct_select_link:
  "distinct (map owner_id t) \<Longrightarrow> length (select_link t oid) \<le> 1"
proof (induction t)
  case Nil
  then show ?case by (simp add: select_link_def)
next
  case (Cons l t)
  show ?case
  proof (cases "owner_id l = oid")
    case True
    with Cons.prems have "oid \<notin> set (map owner_id t)" by auto
    then have "select_link t oid = []" by (simp add: select_link_Nil_iff)
    with True show ?thesis by (simp add: select_link_def)
  next
    case False
    with Cons show ?thesis by (simp add: select_link_def)
  qed
qed

lemma link_inv_select_link: "link_inv t \<Longrightarrow> length (select_link t oid) \<le> 1"
  using distinct_select_link [of t oid] by (simp add: link_inv_def)

lemma link_news_inv:
  "link_inv (news_entities d) \<Longrightarrow>
     link_inv (news_entities (snd (link_news u ident k e d))) \<and>
     posts_entities (snd (link_news u ident k e d)) = posts_entities d"
  by (auto simp add: link_news_def dest: link_inv_write_link
      split: option.splits list.splits target_check.splits sum.splits)

lemma link_post_inv:
  "link_inv (posts_entities d) \<Longrightarrow>
     link_inv (posts_entities (snd (link_post u ident k e d))) \<and>
     news_entities (snd (link_post u ident k e d)) = news_entities d"
  by (auto simp add: link_post_def dest: link_inv_write_link
      split: option.splits list.splits target_check.splits sum.splits)

lemma unlink_news_inv:
  "link_inv (news_entities d) \<Longrightarrow>
     link_inv (news_entities (snd (unlink_news u ident d))) \<and>
     posts_entities (snd (unlink_news u ident d)) = posts_entities d"
  by (auto simp add: unlink_news_def link_inv_delete_link split: option.splits list.splits)

lemma unlink_post_inv:
  "link_inv (posts_entities d) \<Longrightarrow>
     link_inv (posts_entities (snd (unlink_post u ident d))) \<and>
     news_entities (snd (unlink_post u ident d)) = news_entities d"
  by (auto simp add: unlink_post_def link_inv_delete_link split: option.splits list.splits)

lemma delete_news_inv:
  "link_inv (news_entities d) \<Longrightarrow>
     link_inv (news_entities (snd (delete_news u ident d))) \<and>
     posts_entities (snd (delete_news u ident d)) = posts_entities d"
  by (auto simp add: delete_news_def sql_delete_news_def link_inv_delete_link
      split: option.splits list.splits)

lemma delete_post_inv:
  "link_inv (posts_entities d) \<Longrightarrow>
     link_inv (posts_entities (snd (delete_post u ident d))) \<and>
     news_entities (snd (delete_post u ident d)) = news_entities d"
  by (auto simp add: delete_post_def sql_delete_post_def link_inv_delete_link
      split: option.splits list.splits)


lemma create_news_tx_inv:
  assumes "link_inv (news_entities d)"
  shows "link_inv (news_entities (snd (create_news_tx f u t c i tgt now d))) \<and>
         posts_entities (snd (create_news_tx f u t c i tgt now d)) = posts_entities d"
proof -
  have ins: "sql_insert_news t c i (uid u) now d = (res, d1) \<Longrightarrow>
               news_entities d1 = news_entities d \<and> posts_entities d1 = posts_entities d"
    for res d1
    by (auto simp add: sql_insert_news_def Let_def split: if_splits)
  show ?thesis
    using assms
    by (auto simp add: create_news_tx_def rollback_def
        dest!: ins dest: link_inv_insert_link
        split: prod.splits sum.splits option.splits if_splits)
qed

lemma create_post_tx_inv:
  assumes "link_inv (posts_entities d)"
  shows "link_inv (posts_entities (snd (create_post_tx f u c i tgt now d))) \<and>
         news_entities (snd (create_post_tx f u c i tgt now d)) = news_entities d"
proof -
  have ins: "sql_insert_post (uid u) c i now d = (res, d1) \<Longrightarrow>
               news_entities d1 = news_entities d \<and> posts_entities d1 = posts_entities d"
    for res d1
    by (auto simp add: sql_insert_post_def Let_def split: if_splits)
  show ?thesis
    using assms
    by (auto simp add: create_post_tx_def rollback_def
        dest!: ins dest: link_inv_insert_link
        split: prod.splits sum.splits option.splits if_splits)
qed

lemma update_news_tx_inv:
  assumes "link_inv (news_entities d)"
  shows "link_inv (news_entities (snd (update_news_tx f oid t c i tgt now d))) \<and>
         posts_entities (snd (update_news_tx f oid t c i tgt now d)) = posts_entities d"
proof -
  have upd: "sql_update_news oid t c i now d = Inr d1 \<Longrightarrow>
               news_entities d1 = news_entities d \<and> posts_entities d1 = posts_entities d"
    for d1
    by (auto simp add: sql_update_news_def split: if_splits)
  show ?thesis
    using assms
    by (auto simp add: update_news_tx_def rollback_def link_inv_delete_link
        dest!: upd dest: link_inv_write_link
        split: prod.splits sum.splits option.splits if_splits)
qed

lemma update_post_tx_inv:
  assumes "link_inv (posts_entities d)"
  shows "link_inv (posts_entities (snd (update_post_tx f oid c i tgt now d))) \<and>
         news_entities (snd (update_post_tx f oid c i tgt now d)) = news_entities d"
proof -
  have upd: "sql_update_post oid c i now d = Inr d1 \<Longrightarrow>
               news_entities d1 = news_entities d \<and> posts_entities d1 = posts_entities d"
    for d1
    by (auto simp add: sql_update_post_def split: if_splits)
  show ?thesis
    using assms
    by (auto simp add: update_post_tx_def rollback_def link_inv_delete_link
        dest!: upd dest: link_inv_write_link
        split: prod.splits sum.splits option.splits if_splits)
qed


lemma create_news_inv:
  "link_inv (news_entities d) \<Longrightarrow>
     link_inv (news_entities (snd (create_news f u t c lt li file now d))) \<and>
     posts_entities (snd (create_news f u t c lt li file now d)) = posts_entities d"
  by (simp add: create_news_def create_news_tx_inv split: target_check.splits)

lemma create_post_inv:
  "link_inv (posts_entities d) \<Longrightarrow>
     link_inv (posts_entities (snd (create_post f u c lt li file now d))) \<and>
     news_entities (snd (create_post f u c lt li file now d)) = news_entities d"
  by (simp add: create_post_def create_post_tx_inv split: target_check.splits)

lemma update_news_inv:
  "link_inv (news_entities d) \<Longrightarrow>
     link_inv (news_entities (snd (update_news f u ident t c lt li file now d))) \<and>
     posts_entities (snd (update_news f u ident t c lt li file now d)) = posts_entities d"
  by (simp add: update_news_def update_news_tx_inv
      split: target_check.splits option.splits list.splits)

lemma update_post_inv:
  "link_inv (posts_entities d) \<Longrightarrow>
     link_inv (posts_entities (snd (update_post f u ident c lt li file now d))) \<and>
     news_entities (snd (update_post f u ident c lt li file now d)) = news_entities d"
  by (simp add: update_post_def update_post_tx_inv
      split: target_check.splits option.splits list.splits)

lemma handle_inv:
  assumes "link_inv (news_entities d)" and "link_inv (posts_entities d)"
  shows "link_inv (news_entities (snd (handle q d))) \<and>
         link_inv (posts_entities (snd (handle q d)))"
proof (cases q)
  case (NewsCreate f u t c lt li fl now)
  with assms show ?thesis using create_news_inv [of d f u t c lt li fl now] by simp
next
  case (NewsUpdate f u i t c lt li fl now)
  with assms show ?thesis using update_news_inv [of d f u i t c lt li fl now] by simp
next
  case (NewsLink u i k e)
  with assms show ?thesis using link_news_inv [of d u i k e] by simp
next
  case (NewsUnlink u i)
  with assms show ?thesis using unlink_news_inv [of d u i] by simp
next
  case (NewsDelete u i)
  with assms show ?thesis using delete_news_inv [of d u i] by simp
next
  case (PostsCreate f u c lt li fl now)
  with assms show ?thesis using create_post_inv [of d f u c lt li fl now] by simp
next
  case (PostsUpdate f u i c lt li fl now)
  with assms show ?thesis using update_post_inv [of d f u i c lt li fl now] by simp
next
  case (PostsLink u i k e)
  with assms show ?thesis using link_post_inv [of d u i k e] by simp
next
  case (PostsUnlink u i)
  with assms show ?thesis using unlink_post_inv [of d u i] by simp
next
  case (PostsDelete u i)
  with assms show ?thesis using delete_post_inv [of d u i] by simp
qed

lemma run_inv:
  "link_inv (news_entities d) \<Longrightarrow> link_inv (posts_entities d) \<Longrightarrow>
     link_inv (news_entities (run qs d)) \<and> link_inv (posts_entities (run qs d))"
proof (induction qs arbitrary: d)
  case Nil
  then show ?case by simp
next
  case (Cons q qs)
  from Cons.prems have "link_inv (news_entities (snd (handle q d))) \<and>
                        link_inv (posts_entities (snd (handle q d)))"
    by (rule handle_inv)
  then show ?case using Cons.IH [of "snd (handle q d)"] by simp
qed

text \<open>
  C2. From a store in which the two constraints of the link tables hold, whatever
  sequence of create, update, link, unlink and delete requests on news items and posts is
  run, with whatever faults, every owner id has at most one link row in either link
  table, and the kind of every link row is one of \<^verbatim>\<open>class\<close>, \<^verbatim>\<open>module\<close>,
  \<^verbatim>\<open>assignment\<close>.
\<close>

theorem one_link_row_per_owner:
  assumes "link_inv (news_entities d)" and "link_inv (posts_entities d)"
  shows "length (select_link (news_entities (run qs d)) oid) \<le> 1 \<and>
         length (select_link (posts_entities (run qs d)) oid) \<le> 1 \<and>
         (\<forall>l \<in> set (news_entities (run qs d)). entity_type l \<in> set entity_kinds) \<and>
         (\<forall>l \<in> set (posts_entities (run qs d)). entity_type l \<in> set entity_kinds)"
proof -
  from assms have inv: "link_inv (news_entities (run qs d)) \<and> link_inv (posts_entities (run qs d))"
    by (rule run_inv)
  then have "length (select_link (news_entities (run qs d)) oid) \<le> 1"
    and "length (select_link (posts_entities (run qs d)) oid) \<le> 1"
    by (blast intro: link_inv_select_link)+
  moreover from inv have "\<forall>l \<in> set (news_entities (run qs d)). entity_type l \<in> set entity_kinds"
    and "\<forall>l \<in> set (posts_entities (run qs d)). entity_type l \<in> set entity_kinds"
    by (simp_all add: link_inv_def list_all_iff)
  ultimately show ?thesis by simp
qed

theorem one_link_row_per_owner_witness:
  "link_inv (news_entities store0) \<and> link_inv (posts_entities store0) \<and>
   news_entities (run requests0 store0)
     = [\<lparr>owner_id = 1, entity_type = ''module'', entity_id = 4\<rparr>,
        \<lparr>owner_id = 2, entity_type = ''class'', entity_id = 3\<rparr>] \<and>
   posts_entities (run requests0 store0)
     = [\<lparr>owner_id = 2, entity_type = ''module'', entity_id = 4\<rparr>] \<and>
   length (select_link (news_entities (run requests0 store0)) 2) \<le> 1 \<and>
   length (select_link (posts_entities (run requests0 store0)) 2) \<le> 1"
proof -
  have n: "link_inv (news_entities store0)"
    by code_simp
  have p: "link_inv (posts_entities store0)"
    by code_simp
  have ran: "news_entities (run requests0 store0)
               = [\<lparr>owner_id = 1, entity_type = ''module'', entity_id = 4\<rparr>,
                  \<lparr>owner_id = 2, entity_type = ''class'', entity_id = 3\<rparr>]"
    by code_simp
  have ran': "posts_entities (run requests0 store0)
               = [\<lparr>owner_id = 2, entity_type = ''module'', entity_id = 4\<rparr>]"
    by code_simp
  have "length (select_link (news_entities (run requests0 store0)) 2) \<le> 1 \<and>
        length (select_link (posts_entities (run requests0 store0)) 2) \<le> 1"
    using one_link_row_per_owner [OF n p, of requests0 2] by blast
  with n p ran ran' show ?thesis
    by blast
qed

end
